theory Spec2Isabelle
  imports Main "HOL-Library.Word"
begin

unbundle bit_operations_syntax

section \<open>Random token generator\<close>

text \<open>
  How a call left the function: it returned, a type assertion or allocation panicked,
  \<^verbatim>\<open>log.Fatal\<close> ended the process, or the random source never handed out what the
  loop was waiting for.
\<close>

datatype status = Returned | Panicked | Exited | Starved

text \<open>
  The process-wide source \<^verbatim>\<open>src\<close> is the list of values its next calls of
  \<^verbatim>\<open>Int63()\<close> return, as \<^verbatim>\<open>int64\<close>. A loop that asks an exhausted list for
  another value does not return.
\<close>

type_synonym source = "64 word list"

definition letterBytes :: string where
  "letterBytes = ''abcdefghijklmnopqrstuvwxyzABCDEFGHIJKLMNOPQRSTUVWXYZ''"

definition letterIdxBits :: nat where
  "letterIdxBits = 6"

definition letterIdxMask :: "64 word" where
  "letterIdxMask = push_bit letterIdxBits 1 - 1"

definition letterIdxMax :: nat where
  "letterIdxMax = 63 div letterIdxBits"

text \<open>The head of the loop body: \<^verbatim>\<open>if remain == 0 { cache, remain = src.Int63(), letterIdxMax }\<close>.\<close>

definition refill :: "64 word \<Rightarrow> nat \<Rightarrow> source \<Rightarrow> (64 word \<times> nat \<times> source) option" where
  "refill cache remain ds =
     (if remain = 0 then
        (case ds of [] \<Rightarrow> None | d # ds' \<Rightarrow> Some (d, letterIdxMax, ds'))
      else Some (cache, remain, ds))"

function rs_loop :: "char list \<Rightarrow> int \<Rightarrow> 64 word \<Rightarrow> nat \<Rightarrow> source \<Rightarrow> (char list \<times> source) option" where
  "rs_loop b i cache remain ds =
     (if \<not> 0 \<le> i then Some (b, ds)
      else
        (case refill cache remain ds of
           None \<Rightarrow> None
         | Some (cache1, remain1, ds1) \<Rightarrow>
             (let idx = sint (cache1 AND letterIdxMask) in
              if idx < int (length letterBytes)
              then rs_loop (b[nat i := letterBytes ! nat idx]) (i - 1)
                     (signed_drop_bit letterIdxBits cache1) (remain1 - 1) ds1
              else rs_loop b i (signed_drop_bit letterIdxBits cache1) (remain1 - 1) ds1)))"
  by pat_completeness auto
termination
  by (relation "measures [\<lambda>(b, i, cache, remain, ds). length ds,
                          \<lambda>(b, i, cache, remain, ds). remain]")
     (auto simp: refill_def split: if_splits list.splits)

declare rs_loop.simps [simp del]

text \<open>
  \<^verbatim>\<open>RandomString(n)\<close>: \<^verbatim>\<open>make([]byte, n)\<close> panics on a negative length; the loop
  initialiser draws the first cache value before the first test of \<^verbatim>\<open>i >= 0\<close>.
  The result carries the string and what is left of the source.
\<close>

definition RandomString :: "int \<Rightarrow> source \<Rightarrow> status \<times> string \<times> source" where
  "RandomString n ds =
     (if n < 0 then (Panicked, [], ds)
      else
        (case ds of
           [] \<Rightarrow> (Starved, [], ds)
         | d # ds' \<Rightarrow>
             (case rs_loop (replicate (nat n) (CHR 0x00)) (n - 1) d letterIdxMax ds' of
                None \<Rightarrow> (Starved, [], [])
              | Some (b, rest) \<Rightarrow> (Returned, b, rest))))"

text \<open>
  The letter indices a cache value still holds for \<^verbatim>\<open>remain\<close> more rounds, and those
  the loop can read from a cache and the values the source hands out after it. An index
  is usable when it is below \<^verbatim>\<open>len(letterBytes)\<close>; the loop skips the others.
\<close>

fun idxs :: "nat \<Rightarrow> 64 word \<Rightarrow> int list" where
  "idxs 0 cache = []"
| "idxs (Suc remain) cache =
     sint (cache AND letterIdxMask) # idxs remain (signed_drop_bit letterIdxBits cache)"

definition offered :: "64 word \<Rightarrow> nat \<Rightarrow> source \<Rightarrow> int list" where
  "offered cache remain ds = idxs remain cache @ concat (map (idxs letterIdxMax) ds)"

definition usable :: "int list \<Rightarrow> nat" where
  "usable xs = length (filter (\<lambda>idx. idx < int (length letterBytes)) xs)"

section \<open>Values, sessions and the record of effects\<close>

text \<open>
  A session value is an \<^verbatim>\<open>interface{}\<close>: nil, a bool, a string, or something of
  another type (an int stands for those). \<^verbatim>\<open>v.(string)\<close> and \<^verbatim>\<open>v.(bool)\<close> panic on
  a value of another type, nil included; the two-result form \<^verbatim>\<open>s, ok := v.(string)\<close>
  gives the zero value and \<^verbatim>\<open>false\<close> instead.
\<close>

datatype val = VNil | VBool bool | VStr string | VInt int

definition assert_string :: "val \<Rightarrow> string option" where
  "assert_string v = (case v of VStr s \<Rightarrow> Some s | _ \<Rightarrow> None)"

definition assert_bool :: "val \<Rightarrow> bool option" where
  "assert_bool v = (case v of VBool b \<Rightarrow> Some b | _ \<Rightarrow> None)"

definition as_string :: "val \<Rightarrow> string \<times> bool" where
  "as_string v = (case v of VStr s \<Rightarrow> (s, True) | _ \<Rightarrow> ([], False))"

type_synonym session = "string \<rightharpoonup> val"

text \<open>
  What a handler does to the outside, in the order it does it. A Go \<^verbatim>\<open>error\<close> is its
  message, \<open>None\<close> for nil. The caller's \<^verbatim>\<open>ErrorHandler\<close> is opaque: its call is an event.
\<close>

datatype event =
    EvSet string val
  | EvSave "string option"
  | EvExchange string "string option"
  | EvVerify string "string option"
  | EvError string
  | EvErrorHandler
  | EvAbort
  | EvNext
  | EvRedirect nat string
  | EvFatal string

text \<open>
  The request context with its session (\<^verbatim>\<open>sessions.Default(c)\<close>), the events so far, and
  the state of the process-wide random source.
\<close>

record ctx =
  SessionValues :: session
  events :: "event list"
  src :: source

definition emit :: "event \<Rightarrow> ctx \<Rightarrow> ctx" where
  "emit e c = c\<lparr>events := events c @ [e]\<rparr>"

definition session_Get :: "ctx \<Rightarrow> string \<Rightarrow> val" where
  "session_Get c key = (case SessionValues c key of None \<Rightarrow> VNil | Some v \<Rightarrow> v)"

definition session_Set :: "string \<Rightarrow> val \<Rightarrow> ctx \<Rightarrow> ctx" where
  "session_Set key v c = emit (EvSet key v) (c\<lparr>SessionValues := (SessionValues c)(key \<mapsto> v)\<rparr>)"

section \<open>Configuration and the library boundary\<close>

record url =
  Scheme :: string
  Host :: string
  Path :: string
  RawQuery :: string
  Fragment :: string

text \<open>
  \<^verbatim>\<open>InitParams\<close> without its \<^verbatim>\<open>ErrorHandler\<close>: the handler is the caller's function, and
  the model records each call of it as the event \<open>EvErrorHandler\<close> instead of running it.
  \<^verbatim>\<open>LogoutUrl\<close> is a pointer, nil until startup has set it.
\<close>

record InitParams =
  ClientId :: string
  ClientSecret :: string
  ClientName :: string
  Issuer :: url
  ClientUrl :: url
  Scopes :: "string list"
  CallbackPath :: string
  LogoutUrl :: "url option"
  PostLogoutUrl :: url

record Endpoint =
  AuthURL :: string
  TokenURL :: string

record Config =
  cfg_ClientID :: string
  cfg_ClientSecret :: string
  cfg_Endpoint :: Endpoint
  cfg_RedirectURL :: string
  cfg_Scopes :: "string list"

record Token =
  AccessToken :: string
  RefreshToken :: string
  Extra :: "string \<Rightarrow> val"

datatype IDToken = IDToken string

type_synonym claims = "(string \<times> val) list"

type_synonym IDTokenVerifier = "string \<Rightarrow> string + IDToken"

record Provider =
  provider_Endpoint :: Endpoint
  provider_Verifier :: "string \<Rightarrow> IDTokenVerifier"
  provider_Claims :: "string + (string \<rightharpoonup> val)"

text \<open>
  The collaborators outside the repository: the URL and JSON functions of the standard
  library, provider discovery, the OAuth2 client and the session store. A call that
  returns an error returns \<open>Inl\<close> of its message.
\<close>

record env =
  NewProvider :: "string \<Rightarrow> string + Provider"
  url_Parse :: "string \<Rightarrow> string + url"
  url_String :: "url \<Rightarrow> string"
  Values_Encode :: "(string \<times> string list) list \<Rightarrow> string"
  AuthCodeURL :: "Config \<Rightarrow> string \<Rightarrow> string"
  Exchange :: "Config \<Rightarrow> string \<Rightarrow> string + Token"
  IDToken_Claims :: "IDToken \<Rightarrow> string + claims"
  json_Marshal :: "claims \<Rightarrow> string + string"
  Save :: "session \<Rightarrow> string option"

record request =
  URL :: url
  Query :: "string \<Rightarrow> string"

definition session_Save :: "env \<Rightarrow> ctx \<Rightarrow> string option \<times> ctx" where
  "session_Save env c = (let err = Save env (SessionValues c) in (err, emit (EvSave err) c))"

definition Redirect :: "nat \<Rightarrow> string \<Rightarrow> ctx \<Rightarrow> ctx" where
  "Redirect code location c = emit (EvRedirect code location) c"

definition StatusFound :: nat where
  "StatusFound = 302"

definition TrimSuffix :: "string \<Rightarrow> string \<Rightarrow> string" where
  "TrimSuffix s suffix =
     (if length suffix \<le> length s \<and> drop (length s - length suffix) s = suffix
      then take (length s - length suffix) s else s)"

section \<open>Startup\<close>

definition initVerifierAndConfig ::
  "env \<Rightarrow> InitParams \<Rightarrow> status \<times> InitParams \<times> (IDTokenVerifier \<times> Config) option" where
  "initVerifierAndConfig env i =
     (case NewProvider env (url_String env (Issuer i)) of
        Inl err \<Rightarrow> (Exited, i, None)
      | Inr provider \<Rightarrow>
          (let verifier = provider_Verifier provider (ClientId i);
               endpoint = provider_Endpoint provider;
               i = i\<lparr>ClientUrl := (ClientUrl i)\<lparr>Path := CallbackPath i\<rparr>\<rparr>;
               config = \<lparr>cfg_ClientID = ClientId i, cfg_ClientSecret = ClientSecret i,
                         cfg_Endpoint = endpoint, cfg_RedirectURL = url_String env (ClientUrl i),
                         cfg_Scopes = Scopes i\<rparr>
           in case provider_Claims provider of
                Inl err \<Rightarrow> (Exited, i, None)
              | Inr issuerMetadata \<Rightarrow>
                  (case issuerMetadata ''end_session_endpoint'' of
                     Some logout \<Rightarrow>
                       (case assert_string logout of
                          None \<Rightarrow> (Panicked, i, None)
                        | Some l \<Rightarrow>
                            (case url_Parse env l of
                               Inl err \<Rightarrow> (Exited, i, None)
                             | Inr logoutUrl \<Rightarrow>
                                 (Returned, i\<lparr>LogoutUrl := Some logoutUrl\<rparr>, Some (verifier, config))))
                   | None \<Rightarrow>
                       (case url_Parse env (TrimSuffix (url_String env (Issuer i)) ''/''
                                             @ ''protocol/openid-connect/logout'') of
                          Inl err \<Rightarrow> (Exited, i, None)
                        | Inr logoutUrl \<Rightarrow>
                            (Returned, i\<lparr>LogoutUrl := Some logoutUrl\<rparr>, Some (verifier, config))))))"

section \<open>Error reporting\<close>

definition handleError :: "ctx \<Rightarrow> InitParams \<Rightarrow> string option \<Rightarrow> string \<Rightarrow> bool \<times> ctx" where
  "handleError c i err message =
     (case err of
        None \<Rightarrow> (False, c)
      | Some e \<Rightarrow>
          (True, emit EvAbort (emit EvErrorHandler (emit (EvError (message @ '' ['' @ e @ '']'')) c))))"

definition handleOk :: "ctx \<Rightarrow> InitParams \<Rightarrow> bool \<Rightarrow> string \<Rightarrow> bool \<times> ctx" where
  "handleOk c i ok message =
     (if ok then (False, c) else handleError c i (Some ''not ok'') message)"

definition error_of :: "string + 'a \<Rightarrow> string option" where
  "error_of res = (case res of Inl e \<Rightarrow> Some e | Inr x \<Rightarrow> None)"

text \<open>The two library calls a handler makes, each leaving its event.\<close>

definition call_Verify :: "IDTokenVerifier \<Rightarrow> string \<Rightarrow> ctx \<Rightarrow> (string + IDToken) \<times> ctx" where
  "call_Verify verifier rawIDToken c =
     (let res = verifier rawIDToken
      in (res, emit (EvVerify rawIDToken (error_of res)) c))"

definition call_Exchange :: "env \<Rightarrow> Config \<Rightarrow> string \<Rightarrow> ctx \<Rightarrow> (string + Token) \<times> ctx" where
  "call_Exchange env config code c =
     (let res = Exchange env config code
      in (res, emit (EvExchange code (error_of res)) c))"

text \<open>
  The conditions \<^verbatim>\<open>v != nil && v.(string) != ""\<close> and \<^verbatim>\<open>v != nil && v.(bool)\<close>: the
  assertion runs only on a non-nil value, and \<open>None\<close> is its panic.
\<close>

definition nonempty_string :: "val \<Rightarrow> bool option" where
  "nonempty_string v =
     (if v \<noteq> VNil then (case assert_string v of None \<Rightarrow> None | Some s \<Rightarrow> Some (s \<noteq> []))
      else Some False)"

definition true_bool :: "val \<Rightarrow> bool option" where
  "true_bool v = (if v \<noteq> VNil then assert_bool v else Some False)"

section \<open>Logout handler\<close>

definition logoutHandler :: "env \<Rightarrow> InitParams \<Rightarrow> ctx \<Rightarrow> status \<times> ctx" where
  "logoutHandler env i c =
     (let rawIDToken = session_Get c ''oidcIDToken''
      in case nonempty_string rawIDToken of
           None \<Rightarrow> (Panicked, c)
         | Some present \<Rightarrow>
             (let skipProviderLogout = \<not> present;
                  c = session_Set ''oidcAuthorized'' (VBool False) c;
                  c = session_Set ''oidcClaims'' VNil c;
                  c = session_Set ''oidcState'' VNil c;
                  c = session_Set ''oidcOriginalRequestUrl'' VNil c;
                  c = session_Set ''oidcIDToken'' VNil c;
                  (err, c) = session_Save env c
              in if skipProviderLogout
                 then (Returned, Redirect StatusFound (url_String env (PostLogoutUrl i)) c)
                 else
                   (case LogoutUrl i of
                      None \<Rightarrow> (Panicked, c)
                    | Some logoutUrl \<Rightarrow>
                        (case assert_string rawIDToken of
                           None \<Rightarrow> (Panicked, c)
                         | Some hint \<Rightarrow>
                             (let logoutUrl = logoutUrl\<lparr>RawQuery := Values_Encode env
                                    [(''post_logout_redirect_uri'', [url_String env (PostLogoutUrl i)]),
                                     (''id_token_hint'', [hint])]\<rparr>
                              in (Returned, Redirect StatusFound (url_String env logoutUrl) c))))))"

section \<open>Callback handler\<close>

text \<open>
  Each step is the source's \<^verbatim>\<open>if handleError(...) { return }\<close>: \<open>stop\<close> is true exactly
  when the call returned an error, so the case on the call's result takes the same branch
  and names the value the later steps use.
\<close>

definition callbackHandler ::
  "env \<Rightarrow> InitParams \<Rightarrow> IDTokenVerifier \<Rightarrow> Config \<Rightarrow> request \<Rightarrow> ctx \<Rightarrow> status \<times> ctx" where
  "callbackHandler env i verifier config r c =
     (let (state, ok) = as_string (session_Get c ''oidcState'');
          (stop, c) = handleOk c i ok ''failed to parse state''
      in if stop then (Returned, c) else
     (let (stop, c) = handleOk c i (Query r ''state'' = state)
                        ''get 'state' param didn't match local 'state' value''
      in if stop then (Returned, c) else
     (let (res, c) = call_Exchange env config (Query r ''code'') c;
          (stop, c) = handleError c i (error_of res) ''failed to exchange token''
      in case res of Inl e \<Rightarrow> (Returned, c) | Inr oauth2Token \<Rightarrow>
     (let (rawIDToken, ok) = as_string (Extra oauth2Token ''id_token'');
          (stop, c) = handleOk c i ok ''no id_token field in oauth2 token''
      in if stop then (Returned, c) else
     (let (res, c) = call_Verify verifier rawIDToken c;
          (stop, c) = handleError c i (error_of res) ''failed to verify id token''
      in case res of Inl e \<Rightarrow> (Returned, c) | Inr idToken \<Rightarrow>
     (let res = IDToken_Claims env idToken;
          (stop, c) = handleError c i (error_of res) ''failed to parse id token''
      in case res of Inl e \<Rightarrow> (Returned, c) | Inr claims \<Rightarrow>
     (let res = json_Marshal env claims;
          (stop, c) = handleError c i (error_of res) ''failed to marshal id token: ''
      in case res of Inl e \<Rightarrow> (Returned, c) | Inr claimsJson \<Rightarrow>
     (let (originalRequestUrl, ok) = as_string (session_Get c ''oidcOriginalRequestUrl'');
          (stop, c) = handleOk c i ok ''failed to parse originalRequestUrl''
      in if stop then (Returned, c) else
     (let c = session_Set ''oidcAuthorized'' (VBool True) c;
          c = session_Set ''oidcState'' VNil c;
          c = session_Set ''oidcOriginalRequestUrl'' VNil c;
          c = session_Set ''oidcClaims'' (VStr claimsJson) c;
          c = session_Set ''oidcIDToken'' (VStr rawIDToken) c;
          (err, c) = session_Save env c;
          (stop, c) = handleError c i err ''failed save sessions.''
      in if stop then (Returned, c)
         else (Returned, Redirect StatusFound originalRequestUrl c))))))))))"

section \<open>Auth gate\<close>

definition protectMiddleware ::
  "env \<Rightarrow> InitParams \<Rightarrow> IDTokenVerifier \<Rightarrow> Config \<Rightarrow> request \<Rightarrow> ctx \<Rightarrow> status \<times> ctx" where
  "protectMiddleware env i verifier config r c =
     (let authorized = session_Get c ''oidcAuthorized''
      in case true_bool authorized of
           None \<Rightarrow> (Panicked, c)
         | Some isAuthorized \<Rightarrow>
             if isAuthorized \<or> Path (URL r) = CallbackPath i then
               (let rawIDToken = session_Get c ''oidcIDToken''
                in case nonempty_string rawIDToken of
                     None \<Rightarrow> (Panicked, c)
                   | Some present \<Rightarrow>
                       if present then
                         (case assert_string rawIDToken of
                            None \<Rightarrow> (Panicked, c)
                          | Some token \<Rightarrow>
                              (let (res, c) = call_Verify verifier token c;
                                   (stop, c) = handleError c i (error_of res) ''failed to verify id token''
                               in if stop then (Returned, c) else (Returned, emit EvNext c)))
                       else (Returned, emit EvNext c))
             else
               (let (st, state, rest) = RandomString 16 (src c);
                    c = c\<lparr>src := rest\<rparr>
                in if st \<noteq> Returned then (st, c) else
               (let c = session_Set ''oidcAuthorized'' (VBool False) c;
                    c = session_Set ''oidcState'' (VStr state) c;
                    c = session_Set ''oidcOriginalRequestUrl'' (VStr (url_String env (URL r))) c;
                    c = session_Set ''oidcIDToken'' VNil c;
                    (err, c) = session_Save env c
                in case err of
                     Some e \<Rightarrow> (Exited, emit (EvFatal (''failed save sessions. error: '' @ e)) c)
                   | None \<Rightarrow> (Returned, Redirect StatusFound (AuthCodeURL env config state) c))))"

section \<open>The session invariant\<close>



text \<open>A step that leaves the session values alone and at most adds events.\<close>

definition only_events :: "ctx \<Rightarrow> ctx \<Rightarrow> bool" where
  "only_events c c' =
     (SessionValues c' = SessionValues c \<and> (\<exists>es. events c' = events c @ es))"

text \<open>
  The verifier of the library splits a token at its dots before anything else and
  rejects a string with fewer than two parts, the empty string among them.
\<close>

definition rejects_empty :: "IDTokenVerifier \<Rightarrow> bool" where
  "rejects_empty verifier = (case verifier [] of Inl e \<Rightarrow> True | Inr t \<Rightarrow> False)"


section \<open>A stand-in library and a sample deployment\<close>

text \<open>
  The theorems below hold for every library and store. To run the handlers on concrete
  requests, this is one: URLs render from their parts without escaping, parsing keeps the
  whole text as the path, the provider accepts the code \<open>C1\<close> and signs one token.
\<close>

definition sample_String :: "url \<Rightarrow> string" where
  "sample_String u =
     (if Scheme u = [] then [] else Scheme u @ ''://'') @ Host u @ Path u @
     (if RawQuery u = [] then [] else ''?'' @ RawQuery u) @
     (if Fragment u = [] then [] else ''#'' @ Fragment u)"

definition sample_Parse :: "string \<Rightarrow> string + url" where
  "sample_Parse text = Inr \<lparr>Scheme = [], Host = [], Path = text, RawQuery = [], Fragment = []\<rparr>"

fun sample_Encode :: "(string \<times> string list) list \<Rightarrow> string" where
  "sample_Encode [] = []"
| "sample_Encode [(key, vs)] = key @ ''='' @ concat vs"
| "sample_Encode ((key, vs) # kvs) = key @ ''='' @ concat vs @ ''&'' @ sample_Encode kvs"

definition sample_verifier :: IDTokenVerifier where
  "sample_verifier rawIDToken =
     (if rawIDToken = ''header.payload.signature'' then Inr (IDToken ''payload'')
      else Inl ''oidc: malformed jwt'')"

definition sample_token :: Token where
  "sample_token = \<lparr>AccessToken = ''access'', RefreshToken = ''refresh'',
     Extra = (\<lambda>key. if key = ''id_token'' then VStr ''header.payload.signature'' else VNil)\<rparr>"

definition sample_endpoint :: Endpoint where
  "sample_endpoint = \<lparr>AuthURL = ''https://idp.example/auth/authorize'',
                        TokenURL = ''https://idp.example/auth/token''\<rparr>"

definition sample_provider :: Provider where
  "sample_provider = \<lparr>provider_Endpoint = sample_endpoint,
     provider_Verifier = (\<lambda>clientID. sample_verifier),
     provider_Claims = Inr [''issuer'' \<mapsto> VStr ''https://idp.example/auth/'']\<rparr>"

definition sample_env :: env where
  "sample_env = \<lparr>NewProvider = (\<lambda>issuer. Inr sample_provider),
     url_Parse = sample_Parse, url_String = sample_String, Values_Encode = sample_Encode,
     AuthCodeURL = (\<lambda>config state. AuthURL (cfg_Endpoint config) @ ''?state='' @ state),
     Exchange = (\<lambda>config code. if code = ''C1'' then Inr sample_token else Inl ''invalid_grant''),
     IDToken_Claims = (\<lambda>idToken. Inr [(''sub'', VStr ''alice'')]),
     json_Marshal = (\<lambda>claims. Inr ''{sub:alice}''),
     Save = (\<lambda>values. None)\<rparr>"

definition failing_store :: env where
  "failing_store = sample_env\<lparr>Save := (\<lambda>values. Some ''store unreachable'')\<rparr>"

definition sample_params :: InitParams where
  "sample_params = \<lparr>ClientId = ''client'', ClientSecret = ''secret'', ClientName = ''app'',
     Issuer = \<lparr>Scheme = ''https'', Host = ''idp.example'', Path = ''/auth/'',
                RawQuery = [], Fragment = []\<rparr>,
     ClientUrl = \<lparr>Scheme = ''http'', Host = ''app.example'', Path = ''/'',
                   RawQuery = [], Fragment = []\<rparr>,
     Scopes = [''openid'', ''profile'', ''email''],
     CallbackPath = ''/oidc-callback'',
     LogoutUrl = Some \<lparr>Scheme = ''https'', Host = ''idp.example'', Path = ''/auth/logout'',
                        RawQuery = [], Fragment = []\<rparr>,
     PostLogoutUrl = \<lparr>Scheme = ''http'', Host = ''app.example'', Path = ''/bye'',
                       RawQuery = [], Fragment = []\<rparr>\<rparr>"

definition sample_config :: Config where
  "sample_config = \<lparr>cfg_ClientID = ''client'', cfg_ClientSecret = ''secret'',
     cfg_Endpoint = sample_endpoint, cfg_RedirectURL = ''http://app.example/oidc-callback'',
     cfg_Scopes = [''openid'', ''profile'', ''email'']\<rparr>"

definition request_to :: "string \<Rightarrow> (string \<rightharpoonup> string) \<Rightarrow> request" where
  "request_to path params =
     \<lparr>URL = \<lparr>Scheme = [], Host = [], Path = path, RawQuery = [], Fragment = []\<rparr>,
      Query = (\<lambda>key. case params key of None \<Rightarrow> [] | Some v \<Rightarrow> v)\<rparr>"

definition callback_request :: "string \<Rightarrow> string \<Rightarrow> request" where
  "callback_request state code =
     request_to ''/oidc-callback'' [''state'' \<mapsto> state, ''code'' \<mapsto> code]"

definition session_of :: "session \<Rightarrow> ctx" where
  "session_of vs = \<lparr>SessionValues = vs, events = [], src = [0, 0]\<rparr>"

text \<open>A visitor the gate has sent to the provider, and one who has logged in.\<close>

definition pending_session :: ctx where
  "pending_session = session_of [''oidcAuthorized'' \<mapsto> VBool False,
     ''oidcState'' \<mapsto> VStr ''aaaaaaaaaaaaaaaa'',
     ''oidcOriginalRequestUrl'' \<mapsto> VStr ''/protected'', ''oidcIDToken'' \<mapsto> VNil]"


definition authorized_session :: ctx where
  "authorized_session = session_of [''oidcAuthorized'' \<mapsto> VBool True, ''oidcState'' \<mapsto> VNil,
     ''oidcOriginalRequestUrl'' \<mapsto> VNil, ''oidcClaims'' \<mapsto> VStr ''{sub:alice}'',
     ''oidcIDToken'' \<mapsto> VStr ''header.payload.signature'']"

lemmas sample_defs = sample_String_def sample_Parse_def sample_verifier_def sample_token_def
  sample_endpoint_def sample_provider_def sample_env_def sample_params_def
  sample_config_def request_to_def callback_request_def session_of_def pending_session_def authorized_session_def

section \<open>Shared lemmas\<close>

lemmas effect_defs = emit_def session_Get_def session_Set_def session_Save_def Redirect_def
  handleError_def handleOk_def call_Verify_def call_Exchange_def error_of_def

lemma length_letterBytes: "length letterBytes = 52"
  by (simp add: letterBytes_def)

lemma rs_loop_length:
  "rs_loop b i cache remain ds = Some (b', ds') \<Longrightarrow> length b' = length b"
proof (induction b i cache remain ds rule: rs_loop.induct)
  case (1 b i cache remain ds)
  show ?case
  proof (cases "0 \<le> i")
    case False
    with "1.prems" show ?thesis by (simp add: rs_loop.simps)
  next
    case True
    from True "1.prems" obtain cache1 remain1 ds1 where
      r: "refill cache remain ds = Some (cache1, remain1, ds1)"
      by (subst (asm) rs_loop.simps) (auto split: option.splits)
    show ?thesis
    proof (cases "sint (cache1 AND letterIdxMask) < int (length letterBytes)")
      case True
      with \<open>0 \<le> i\<close> r "1.prems" "1.IH"(1)[OF _ r refl refl refl] show ?thesis
        by (subst (asm) rs_loop.simps) simp
    next
      case False
      with \<open>0 \<le> i\<close> r "1.prems" "1.IH"(2)[OF _ r refl refl refl] show ?thesis
        by (subst (asm) rs_loop.simps) simp
    qed
  qed
qed

text \<open>
  The loop's invariant: every byte above position \<open>i\<close> is a letter. It fills position
  \<open>i\<close> and moves down, so on leaving every byte is a letter.
\<close>

lemma rs_loop_letters:
  "rs_loop b i cache remain ds = Some (b', ds') \<Longrightarrow> i < int (length b) \<Longrightarrow>
   (\<forall>k < length b. i < int k \<longrightarrow> b ! k \<in> set letterBytes) \<Longrightarrow>
   (\<forall>k < length b'. b' ! k \<in> set letterBytes)"
proof (induction b i cache remain ds rule: rs_loop.induct)
  case (1 b i cache remain ds)
  show ?case
  proof (cases "0 \<le> i")
    case False
    with "1.prems" show ?thesis by (simp add: rs_loop.simps)
  next
    case True
    from True "1.prems" obtain cache1 remain1 ds1 where
      r: "refill cache remain ds = Some (cache1, remain1, ds1)"
      by (subst (asm) rs_loop.simps) (auto split: option.splits)
    show ?thesis
    proof (cases "sint (cache1 AND letterIdxMask) < int (length letterBytes)")
      case lt: True
      let ?b = "b[nat i := letterBytes ! nat (sint (cache1 AND letterIdxMask))]"
      have run: "rs_loop ?b (i - 1) (signed_drop_bit letterIdxBits cache1) (remain1 - 1) ds1 = Some (b', ds')"
        using True r lt "1.prems"(1) by (subst (asm) rs_loop.simps) simp
      have letter: "letterBytes ! nat (sint (cache1 AND letterIdxMask)) \<in> set letterBytes"
        using lt by (intro nth_mem) (simp add: length_letterBytes)
      have inv: "\<forall>k < length ?b. i - 1 < int k \<longrightarrow> ?b ! k \<in> set letterBytes"
        using "1.prems"(3) True letter by (auto simp: nth_list_update)
      show ?thesis
        using "1.IH"(1)[OF _ r refl refl refl lt run _ inv] True "1.prems"(2) by simp
    next
      case False
      have run: "rs_loop b i (signed_drop_bit letterIdxBits cache1) (remain1 - 1) ds1 = Some (b', ds')"
        using True r False "1.prems"(1) by (subst (asm) rs_loop.simps) simp
      show ?thesis
        using "1.IH"(2)[OF _ r refl refl refl False run "1.prems"(2) "1.prems"(3)] True by simp
    qed
  qed
qed

lemma offered_refill:
  "refill cache remain ds = Some (cache1, remain1, ds1) \<Longrightarrow>
     offered cache remain ds = offered cache1 remain1 ds1 \<and> 0 < remain1"
  by (auto simp: refill_def offered_def letterIdxMax_def letterIdxBits_def split: if_splits list.splits)

lemma refill_None:
  "refill cache remain ds = None \<Longrightarrow> offered cache remain ds = []"
  by (auto simp: refill_def offered_def split: if_splits list.splits)

lemma offered_step:
  "0 < remain1 \<Longrightarrow>
     offered cache1 remain1 ds1 =
       sint (cache1 AND letterIdxMask) # offered (signed_drop_bit letterIdxBits cache1) (remain1 - 1) ds1"
  by (cases remain1) (simp_all add: offered_def)

text \<open>The loop returns once the indices it can still read hold more than \<open>i\<close> usable ones.\<close>

lemma rs_loop_returns:
  "i < int (usable (offered cache remain ds)) \<Longrightarrow>
     \<exists>b' ds'. rs_loop b i cache remain ds = Some (b', ds')"
proof (induction b i cache remain ds rule: rs_loop.induct)
  case (1 b i cache remain ds)
  show ?case
  proof (cases "0 \<le> i")
    case False
    then show ?thesis by (simp add: rs_loop.simps)
  next
    case True
    have "refill cache remain ds \<noteq> None"
      using refill_None [of cache remain ds] "1.prems" True
      by (cases "refill cache remain ds") (auto simp: usable_def)
    then obtain cache1 remain1 ds1 where
      r: "refill cache remain ds = Some (cache1, remain1, ds1)" by auto
    note o = offered_refill [OF r]
    have st: "offered cache remain ds =
       sint (cache1 AND letterIdxMask) # offered (signed_drop_bit letterIdxBits cache1) (remain1 - 1) ds1"
      using o offered_step [of remain1 cache1 ds1] by simp
    show ?thesis
    proof (cases "sint (cache1 AND letterIdxMask) < int (length letterBytes)")
      case lt: True
      have "i - 1 < int (usable (offered (signed_drop_bit letterIdxBits cache1) (remain1 - 1) ds1))"
        using "1.prems" st lt by (simp add: usable_def)
      from "1.IH"(1)[OF _ r refl refl refl lt this] True r lt show ?thesis
        by (subst rs_loop.simps) simp
    next
      case False
      have "i < int (usable (offered (signed_drop_bit letterIdxBits cache1) (remain1 - 1) ds1))"
        using "1.prems" st False by (simp add: usable_def)
      from "1.IH"(2)[OF _ r refl refl refl False this] True r False show ?thesis
        by (subst rs_loop.simps) simp
    qed
  qed
qed

lemma RandomString_Returned:
  assumes "RandomString n ds = (Returned, s, rest)"
  shows "0 \<le> n \<and> int (length s) = n \<and> set s \<subseteq> set letterBytes"
proof -
  from assms have n: "0 \<le> n"
    by (auto simp: RandomString_def split: if_splits)
  from assms n obtain d ds' where
    run: "rs_loop (replicate (nat n) (CHR 0x00)) (n - 1) d letterIdxMax ds' = Some (s, rest)"
    by (auto simp: RandomString_def split: list.splits option.splits)
  have len: "length s = nat n"
    using rs_loop_length [OF run] by simp
  have "\<forall>k < length s. s ! k \<in> set letterBytes"
    using n by (intro rs_loop_letters [OF run]) auto
  then have "set s \<subseteq> set letterBytes"
    by (auto simp: in_set_conv_nth)
  with n len show ?thesis by simp
qed

lemma RandomString_returns:
  assumes "n \<le> int (usable (concat (map (idxs letterIdxMax) ds)))" and "0 < n"
  shows "\<exists>s rest. RandomString n ds = (Returned, s, rest)"
proof (cases ds)
  case Nil
  with assms show ?thesis by (simp add: usable_def)
next
  case (Cons d ds')
  have "n - 1 < int (usable (offered d letterIdxMax ds'))"
    using assms Cons by (simp add: offered_def)
  from rs_loop_returns [OF this, of "replicate (nat n) (CHR 0x00)"] assms(2) Cons
  show ?thesis
    by (auto simp: RandomString_def)
qed

section \<open>The random token generator\<close>

text \<open>
  C9. For every \<open>n \<ge> 1\<close>, \<^verbatim>\<open>RandomString(n)\<close> gives a string of exactly \<open>n\<close> characters,
  each from the 52 letters of \<open>letterBytes\<close>: whenever it returns, and it returns as soon
  as the values the source hands out hold \<open>n\<close> indices below 52.
\<close>

theorem RandomString_length_and_alphabet:
  assumes "1 \<le> n"
  shows "letterBytes = ''abcdefghijklmnopqrstuvwxyzABCDEFGHIJKLMNOPQRSTUVWXYZ'' \<and>
         length letterBytes = 52 \<and>
         (\<forall>s rest. RandomString n ds = (Returned, s, rest) \<longrightarrow>
            int (length s) = n \<and> (\<forall>ch \<in> set s. ch \<in> set letterBytes)) \<and>
         (n \<le> int (usable (concat (map (idxs letterIdxMax) ds))) \<longrightarrow>
            (\<exists>s rest. RandomString n ds = (Returned, s, rest)))"
proof -
  have "\<forall>s rest. RandomString n ds = (Returned, s, rest) \<longrightarrow>
          int (length s) = n \<and> (\<forall>ch \<in> set s. ch \<in> set letterBytes)"
    using RandomString_Returned [of n ds] by blast
  moreover have "n \<le> int (usable (concat (map (idxs letterIdxMax) ds))) \<longrightarrow>
          (\<exists>s rest. RandomString n ds = (Returned, s, rest))"
    using RandomString_returns [of n ds] assms by simp
  ultimately show ?thesis
    by (simp add: length_letterBytes) (simp add: letterBytes_def)
qed

lemma RandomString_3: "RandomString 3 [0x7FFFFFFFFFFFFFFF, 13842113] = (Returned, ''ZBb'', [])"
  by code_simp

lemma usable_3: "usable (concat (map (idxs letterIdxMax) [0x7FFFFFFFFFFFFFFF, 13842113])) = 9"
  by code_simp

theorem RandomString_length_and_alphabet_witness:
  "(1::int) \<le> 3 \<and>
   3 \<le> int (usable (concat (map (idxs letterIdxMax) [0x7FFFFFFFFFFFFFFF, 13842113]))) \<and>
   RandomString 3 [0x7FFFFFFFFFFFFFFF, 13842113] = (Returned, ''ZBb'', []) \<and>
   int (length ''ZBb'') = 3 \<and> set ''ZBb'' \<subseteq> set letterBytes"
proof -
  have enough: "3 \<le> int (usable (concat (map (idxs letterIdxMax) [0x7FFFFFFFFFFFFFFF, 13842113])))"
    unfolding usable_3 by simp
  have "(1::int) \<le> 3" by simp
  from RandomString_length_and_alphabet [OF this, of "[0x7FFFFFFFFFFFFFFF, 13842113]"]
  have "int (length ''ZBb'') = 3 \<and> (\<forall>ch \<in> set ''ZBb''. ch \<in> set letterBytes)"
    using RandomString_3 by blast
  with enough RandomString_3 show ?thesis by auto
qed

section \<open>The callback handler\<close>

text \<open>
  C1. When the stored state is absent, is not a string, or differs from the \<open>state\<close>
  query parameter, the callback handler returns the context it was given with three
  events added: the error it records, one call of the error handler, and the abort. The
  session values are the ones it started with (\<open>oidcAuthorized\<close> among them), and no
  \<open>Set\<close>, \<open>Save\<close>, exchange or redirect happens.
\<close>

theorem callback_state_mismatch_aborts:
  assumes "session_Get c ''oidcState'' \<noteq> VStr (Query r ''state'')"
  shows "callbackHandler env i verifier config r c =
           (Returned, c\<lparr>events := events c @
              [EvError (if snd (as_string (session_Get c ''oidcState''))
                        then ''get 'state' param didn't match local 'state' value [not ok]''
                        else ''failed to parse state [not ok]''),
               EvErrorHandler, EvAbort]\<rparr>) \<and>
         SessionValues (snd (callbackHandler env i verifier config r c)) = SessionValues c \<and>
         session_Get (snd (callbackHandler env i verifier config r c)) ''oidcAuthorized'' =
           session_Get c ''oidcAuthorized'' \<and>
         count_list (events (snd (callbackHandler env i verifier config r c))) EvErrorHandler =
           count_list (events c) EvErrorHandler + 1"
  using assms
  by (cases "session_Get c ''oidcState''")
     (simp_all add: callbackHandler_def as_string_def handleOk_def handleError_def emit_def
        session_Get_def)

theorem callback_state_mismatch_aborts_witness:
  "session_Get pending_session ''oidcState'' \<noteq>
     VStr (Query (callback_request ''bbbbbbbbbbbbbbbb'' ''C1'') ''state'') \<and>
   callbackHandler sample_env sample_params sample_verifier sample_config
       (callback_request ''bbbbbbbbbbbbbbbb'' ''C1'')
       pending_session =
     (Returned, pending_session\<lparr>events :=
        [EvError ''get 'state' param didn't match local 'state' value [not ok]'',
         EvErrorHandler, EvAbort]\<rparr>) \<and>
   session_Get (snd (callbackHandler sample_env sample_params sample_verifier sample_config
       (callback_request ''bbbbbbbbbbbbbbbb'' ''C1'')
       pending_session)) ''oidcAuthorized'' = VBool False"
  using callback_state_mismatch_aborts [of pending_session
      "callback_request ''bbbbbbbbbbbbbbbb'' ''C1''"
      sample_env sample_params sample_verifier sample_config]
  by (simp add: sample_defs session_Get_def as_string_def)

text \<open>
  C3. When every step of the callback succeeds, the handler returns with
  \<open>oidcAuthorized\<close> true, \<open>oidcState\<close> and \<open>oidcOriginalRequestUrl\<close> nil, the serialized
  claims and the raw ID token stored and non-empty, every other key of the session as
  it was (so no access or refresh token is written), and its last event is the redirect
  to the original request URL, after the save. The ID token is non-empty because the
  verifier rejects the empty string, the claims because a successful \<^verbatim>\<open>json.Marshal\<close>
  returns at least one byte.
\<close>

theorem callback_success_commits:
  assumes st: "session_Get c ''oidcState'' = VStr (Query r ''state'')"
    and ex: "Exchange env config (Query r ''code'') = Inr oauth2Token"
    and idt: "Extra oauth2Token ''id_token'' = VStr rawIDToken"
    and ver: "verifier rawIDToken = Inr idToken"
    and cl: "IDToken_Claims env idToken = Inr claims"
    and js: "json_Marshal env claims = Inr claimsJson"
    and orig: "session_Get c ''oidcOriginalRequestUrl'' = VStr originalRequestUrl"
    and sv: "Save env ((SessionValues c)(''oidcAuthorized'' \<mapsto> VBool True, ''oidcState'' \<mapsto> VNil,
                ''oidcOriginalRequestUrl'' \<mapsto> VNil, ''oidcClaims'' \<mapsto> VStr claimsJson,
                ''oidcIDToken'' \<mapsto> VStr rawIDToken)) = None"
    and lib: "rejects_empty verifier" "claimsJson \<noteq> []"
  shows "\<exists>c'. callbackHandler env i verifier config r c = (Returned, c') \<and>
           session_Get c' ''oidcAuthorized'' = VBool True \<and>
           session_Get c' ''oidcState'' = VNil \<and>
           session_Get c' ''oidcOriginalRequestUrl'' = VNil \<and>
           session_Get c' ''oidcClaims'' = VStr claimsJson \<and> claimsJson \<noteq> [] \<and>
           session_Get c' ''oidcIDToken'' = VStr rawIDToken \<and> rawIDToken \<noteq> [] \<and>
           (\<forall>key. key \<notin> {''oidcAuthorized'', ''oidcState'', ''oidcOriginalRequestUrl'',
                            ''oidcClaims'', ''oidcIDToken''} \<longrightarrow>
                  SessionValues c' key = SessionValues c key) \<and>
           events c' = events c @
             [EvExchange (Query r ''code'') None, EvVerify rawIDToken None,
              EvSet ''oidcAuthorized'' (VBool True), EvSet ''oidcState'' VNil,
              EvSet ''oidcOriginalRequestUrl'' VNil, EvSet ''oidcClaims'' (VStr claimsJson),
              EvSet ''oidcIDToken'' (VStr rawIDToken), EvSave None,
              EvRedirect 302 originalRequestUrl]"
proof -
  have ne: "rawIDToken \<noteq> []"
    using lib(1) ver by (auto simp: rejects_empty_def)
  show ?thesis
    using assms ne
    by (simp add: callbackHandler_def as_string_def effect_defs StatusFound_def)
qed

lemma callback_sample:
  "callbackHandler sample_env sample_params sample_verifier sample_config
       (callback_request ''aaaaaaaaaaaaaaaa'' ''C1'')
       pending_session =
     (Returned, \<lparr>SessionValues = [''oidcAuthorized'' \<mapsto> VBool True, ''oidcState'' \<mapsto> VNil,
          ''oidcOriginalRequestUrl'' \<mapsto> VNil, ''oidcIDToken'' \<mapsto> VStr ''header.payload.signature'',
          ''oidcClaims'' \<mapsto> VStr ''{sub:alice}''],
        events = [EvExchange ''C1'' None, EvVerify ''header.payload.signature'' None,
          EvSet ''oidcAuthorized'' (VBool True), EvSet ''oidcState'' VNil,
          EvSet ''oidcOriginalRequestUrl'' VNil, EvSet ''oidcClaims'' (VStr ''{sub:alice}''),
          EvSet ''oidcIDToken'' (VStr ''header.payload.signature''), EvSave None,
          EvRedirect 302 ''/protected''],
        src = [0, 0]\<rparr>)"
  by (simp add: callbackHandler_def as_string_def effect_defs StatusFound_def sample_defs
        fun_upd_twist)


theorem callback_success_commits_witness:
  "session_Get pending_session ''oidcState'' =
     VStr (Query (callback_request ''aaaaaaaaaaaaaaaa'' ''C1'') ''state'') \<and>
   Exchange sample_env sample_config (Query (callback_request ''aaaaaaaaaaaaaaaa'' ''C1'') ''code'') =
     Inr sample_token \<and>
   Extra sample_token ''id_token'' = VStr ''header.payload.signature'' \<and>
   sample_verifier ''header.payload.signature'' = Inr (IDToken ''payload'') \<and>
   IDToken_Claims sample_env (IDToken ''payload'') = Inr [(''sub'', VStr ''alice'')] \<and>
   json_Marshal sample_env [(''sub'', VStr ''alice'')] = Inr ''{sub:alice}'' \<and>
   session_Get pending_session ''oidcOriginalRequestUrl'' = VStr ''/protected'' \<and>
   rejects_empty sample_verifier \<and>
   (\<exists>c'. callbackHandler sample_env sample_params sample_verifier sample_config
            (callback_request ''aaaaaaaaaaaaaaaa'' ''C1'') pending_session = (Returned, c') \<and>
         session_Get c' ''oidcAuthorized'' = VBool True \<and>
         session_Get c' ''oidcState'' = VNil \<and>
         session_Get c' ''oidcOriginalRequestUrl'' = VNil \<and>
         session_Get c' ''oidcClaims'' = VStr ''{sub:alice}'' \<and>
         session_Get c' ''oidcIDToken'' = VStr ''header.payload.signature'' \<and>
         SessionValues c' ''oidcAccessToken'' = None \<and>
         SessionValues c' ''oidcRefreshToken'' = None \<and>
         last (events c') = EvRedirect 302 ''/protected'')"
proof -
  have hyps:
    "session_Get pending_session ''oidcState'' =
       VStr (Query (callback_request ''aaaaaaaaaaaaaaaa'' ''C1'') ''state'')"
    "Exchange sample_env sample_config (Query (callback_request ''aaaaaaaaaaaaaaaa'' ''C1'') ''code'') =
       Inr sample_token"
    "Extra sample_token ''id_token'' = VStr ''header.payload.signature''"
    "sample_verifier ''header.payload.signature'' = Inr (IDToken ''payload'')"
    "IDToken_Claims sample_env (IDToken ''payload'') = Inr [(''sub'', VStr ''alice'')]"
    "json_Marshal sample_env [(''sub'', VStr ''alice'')] = Inr ''{sub:alice}''"
    "session_Get pending_session ''oidcOriginalRequestUrl'' = VStr ''/protected''"
    "Save sample_env ((SessionValues pending_session)(''oidcAuthorized'' \<mapsto> VBool True,
        ''oidcState'' \<mapsto> VNil, ''oidcOriginalRequestUrl'' \<mapsto> VNil,
        ''oidcClaims'' \<mapsto> VStr ''{sub:alice}'',
        ''oidcIDToken'' \<mapsto> VStr ''header.payload.signature'')) = None"
    "rejects_empty sample_verifier"
    "''{sub:alice}'' \<noteq> []"
    by (simp_all add: sample_defs session_Get_def rejects_empty_def)
  from callback_success_commits [OF hyps, of sample_params]
  obtain c' where
    run: "callbackHandler sample_env sample_params sample_verifier sample_config
            (callback_request ''aaaaaaaaaaaaaaaa'' ''C1'') pending_session = (Returned, c')"
    and post: "session_Get c' ''oidcAuthorized'' = VBool True"
      "session_Get c' ''oidcState'' = VNil"
      "session_Get c' ''oidcOriginalRequestUrl'' = VNil"
      "session_Get c' ''oidcClaims'' = VStr ''{sub:alice}''"
      "session_Get c' ''oidcIDToken'' = VStr ''header.payload.signature''"
    and frame: "\<forall>key. key \<notin> {''oidcAuthorized'', ''oidcState'', ''oidcOriginalRequestUrl'',
                            ''oidcClaims'', ''oidcIDToken''} \<longrightarrow>
                  SessionValues c' key = SessionValues pending_session key"
    and ev: "events c' = events pending_session @
             [EvExchange (Query (callback_request ''aaaaaaaaaaaaaaaa'' ''C1'') ''code'') None,
              EvVerify ''header.payload.signature'' None,
              EvSet ''oidcAuthorized'' (VBool True), EvSet ''oidcState'' VNil,
              EvSet ''oidcOriginalRequestUrl'' VNil, EvSet ''oidcClaims'' (VStr ''{sub:alice}''),
              EvSet ''oidcIDToken'' (VStr ''header.payload.signature''), EvSave None,
              EvRedirect 302 ''/protected'']"
    by blast
  have "SessionValues c' ''oidcAccessToken'' = None" "SessionValues c' ''oidcRefreshToken'' = None"
    using frame by (simp_all add: sample_defs)
  moreover have "last (events c') = EvRedirect 302 ''/protected''"
    using ev by simp
  ultimately show ?thesis
    using hyps run post by simp
qed

section \<open>The auth gate\<close>

text \<open>
  C4. A request with no true \<open>oidcAuthorized\<close> flag (nil or false) on a path other than
  the callback path: the gate draws a state token of exactly 16 letters, stores
  \<open>oidcAuthorized = false\<close>, the token as \<open>oidcState\<close>, the request's URL as
  \<open>oidcOriginalRequestUrl\<close> and nil as \<open>oidcIDToken\<close>, saves the session, and then
  redirects to the provider's authorization URL built with that token. The generator
  returns because the source hands out 16 usable indices; the save is the one that
  succeeds.
\<close>

theorem gate_starts_login:
  assumes flag: "session_Get c ''oidcAuthorized'' = VNil \<or> session_Get c ''oidcAuthorized'' = VBool False"
    and path: "Path (URL r) \<noteq> CallbackPath i"
    and rs: "RandomString 16 (src c) = (st, state, rest)"
    and enough: "16 \<le> int (usable (concat (map (idxs letterIdxMax) (src c))))"
    and sv: "Save env ((SessionValues c)(''oidcAuthorized'' \<mapsto> VBool False,
                ''oidcState'' \<mapsto> VStr state,
                ''oidcOriginalRequestUrl'' \<mapsto> VStr (url_String env (URL r)),
                ''oidcIDToken'' \<mapsto> VNil)) = None"
  shows "\<exists>c'. protectMiddleware env i verifier config r c = (Returned, c') \<and>
           length state = 16 \<and> set state \<subseteq> set letterBytes \<and>
           session_Get c' ''oidcAuthorized'' = VBool False \<and>
           session_Get c' ''oidcState'' = VStr state \<and>
           session_Get c' ''oidcOriginalRequestUrl'' = VStr (url_String env (URL r)) \<and>
           session_Get c' ''oidcIDToken'' = VNil \<and>
           events c' = events c @
             [EvSet ''oidcAuthorized'' (VBool False), EvSet ''oidcState'' (VStr state),
              EvSet ''oidcOriginalRequestUrl'' (VStr (url_String env (URL r))),
              EvSet ''oidcIDToken'' VNil, EvSave None,
              EvRedirect 302 (AuthCodeURL env config state)]"
proof -
  from RandomString_returns [OF enough] rs have st: "st = Returned" by auto
  from RandomString_Returned [of 16 "src c" state rest] rs st
  have tok: "length state = 16" "set state \<subseteq> set letterBytes" by auto
  from flag have tb: "true_bool (session_Get c ''oidcAuthorized'') = Some False"
    by (auto simp: true_bool_def assert_bool_def)
  show ?thesis
    using tb path rs st sv tok
    by (simp add: protectMiddleware_def effect_defs StatusFound_def)
qed


lemma RandomString_16: "RandomString 16 [0, 0] = (Returned, ''aaaaaaaaaaaaaaaa'', [])"
  by code_simp

lemma usable_16: "usable (concat (map (idxs letterIdxMax) [0, 0])) = 20"
  by code_simp

theorem gate_starts_login_witness:
  "session_Get (session_of Map.empty) ''oidcAuthorized'' = VNil \<and>
   Path (URL (request_to ''/protected'' Map.empty)) \<noteq> CallbackPath sample_params \<and>
   RandomString 16 (src (session_of Map.empty)) = (Returned, ''aaaaaaaaaaaaaaaa'', []) \<and>
   16 \<le> int (usable (concat (map (idxs letterIdxMax) (src (session_of Map.empty))))) \<and>
   (\<exists>c'. protectMiddleware sample_env sample_params sample_verifier sample_config
            (request_to ''/protected'' Map.empty) (session_of Map.empty) = (Returned, c') \<and>
         session_Get c' ''oidcAuthorized'' = VBool False \<and>
         session_Get c' ''oidcState'' = VStr ''aaaaaaaaaaaaaaaa'' \<and>
         session_Get c' ''oidcOriginalRequestUrl'' = VStr ''/protected'' \<and>
         session_Get c' ''oidcIDToken'' = VNil \<and>
         events c' =
           [EvSet ''oidcAuthorized'' (VBool False), EvSet ''oidcState'' (VStr ''aaaaaaaaaaaaaaaa''),
            EvSet ''oidcOriginalRequestUrl'' (VStr ''/protected''), EvSet ''oidcIDToken'' VNil,
            EvSave None,
            EvRedirect 302 ''https://idp.example/auth/authorize?state=aaaaaaaaaaaaaaaa''])"
proof -
  have src: "src (session_of Map.empty) = [0, 0]"
    by (simp add: session_of_def)
  have hyps:
    "session_Get (session_of Map.empty) ''oidcAuthorized'' = VNil \<or>
     session_Get (session_of Map.empty) ''oidcAuthorized'' = VBool False"
    "Path (URL (request_to ''/protected'' Map.empty)) \<noteq> CallbackPath sample_params"
    "RandomString 16 (src (session_of Map.empty)) = (Returned, ''aaaaaaaaaaaaaaaa'', [])"
    "16 \<le> int (usable (concat (map (idxs letterIdxMax) (src (session_of Map.empty)))))"
    "Save sample_env ((SessionValues (session_of Map.empty))(''oidcAuthorized'' \<mapsto> VBool False,
        ''oidcState'' \<mapsto> VStr ''aaaaaaaaaaaaaaaa'',
        ''oidcOriginalRequestUrl'' \<mapsto> VStr (url_String sample_env (URL (request_to ''/protected'' Map.empty))),
        ''oidcIDToken'' \<mapsto> VNil)) = None"
    unfolding src RandomString_16 usable_16
    by (simp_all add: sample_defs session_Get_def)
  from gate_starts_login [OF hyps, of sample_verifier sample_config]
  obtain c' where
    run: "protectMiddleware sample_env sample_params sample_verifier sample_config
            (request_to ''/protected'' Map.empty) (session_of Map.empty) = (Returned, c')"
    and post: "session_Get c' ''oidcAuthorized'' = VBool False"
      "session_Get c' ''oidcState'' = VStr ''aaaaaaaaaaaaaaaa''"
      "session_Get c' ''oidcOriginalRequestUrl'' =
         VStr (url_String sample_env (URL (request_to ''/protected'' Map.empty)))"
      "session_Get c' ''oidcIDToken'' = VNil"
      "events c' = events (session_of Map.empty) @
         [EvSet ''oidcAuthorized'' (VBool False), EvSet ''oidcState'' (VStr ''aaaaaaaaaaaaaaaa''),
          EvSet ''oidcOriginalRequestUrl''
            (VStr (url_String sample_env (URL (request_to ''/protected'' Map.empty)))),
          EvSet ''oidcIDToken'' VNil, EvSave None,
          EvRedirect 302 (AuthCodeURL sample_env sample_config ''aaaaaaaaaaaaaaaa'')]"
    by blast
  have "url_String sample_env (URL (request_to ''/protected'' Map.empty)) = ''/protected''"
    "AuthCodeURL sample_env sample_config ''aaaaaaaaaaaaaaaa'' =
       ''https://idp.example/auth/authorize?state=aaaaaaaaaaaaaaaa''"
    "events (session_of Map.empty) = []"
    by (simp_all add: sample_defs)
  with run post hyps(2,3,4) show ?thesis
    by (simp add: session_Get_def session_of_def)
qed

text \<open>
  C5. With \<open>oidcAuthorized\<close> true, or on the callback path, the gate hands the request to
  the next handler. When the session holds a non-empty ID token it calls the verifier on
  it first: on success the only events are the verification and \<open>Next\<close>; on failure they
  are the verification, the recorded error, one call of the error handler and the abort,
  and \<open>Next\<close> is not among them. The session values stay as they were.
\<close>

theorem gate_passes_or_aborts:
  assumes flag: "session_Get c ''oidcAuthorized'' = VBool True \<or>
                 (Path (URL r) = CallbackPath i \<and>
                  (session_Get c ''oidcAuthorized'' = VNil \<or>
                   session_Get c ''oidcAuthorized'' = VBool False))"
    and tok: "session_Get c ''oidcIDToken'' = VNil \<and> token = [] \<or>
              session_Get c ''oidcIDToken'' = VStr token"
  shows "protectMiddleware env i verifier config r c =
           (Returned,
            if token = [] then c\<lparr>events := events c @ [EvNext]\<rparr>
            else (case verifier token of
                    Inr idToken \<Rightarrow> c\<lparr>events := events c @ [EvVerify token None, EvNext]\<rparr>
                  | Inl e \<Rightarrow> c\<lparr>events := events c @
                      [EvVerify token (Some e),
                       EvError (''failed to verify id token ['' @ e @ '']''),
                       EvErrorHandler, EvAbort]\<rparr>))"
proof -
  define a where "a = (session_Get c ''oidcAuthorized'' = VBool True)"
  from flag have tb: "true_bool (session_Get c ''oidcAuthorized'') = Some a"
    and go: "a \<or> Path (URL r) = CallbackPath i"
    by (auto simp: a_def true_bool_def assert_bool_def)
  from tok have ns: "nonempty_string (session_Get c ''oidcIDToken'') = Some (token \<noteq> [])"
    by (auto simp: nonempty_string_def assert_string_def)
  show ?thesis
  proof (cases "token = []")
    case True
    with tb go ns show ?thesis
      by (simp add: protectMiddleware_def emit_def)
  next
    case False
    with tok have "assert_string (session_Get c ''oidcIDToken'') = Some token"
      by (auto simp: assert_string_def)
    with False tb go ns show ?thesis
      by (cases "verifier token") (simp_all add: protectMiddleware_def effect_defs)
  qed
qed

theorem gate_passes_or_aborts_witness:
  "session_Get authorized_session ''oidcAuthorized'' = VBool True \<and>
   session_Get authorized_session ''oidcIDToken'' = VStr ''header.payload.signature'' \<and>
   protectMiddleware sample_env sample_params sample_verifier sample_config
     (request_to ''/protected'' Map.empty) authorized_session =
     (Returned, authorized_session\<lparr>events := [EvVerify ''header.payload.signature'' None, EvNext]\<rparr>) \<and>
   protectMiddleware sample_env sample_params (\<lambda>rawIDToken. Inl ''oidc: token is expired'')
     sample_config (request_to ''/protected'' Map.empty) authorized_session =
     (Returned, authorized_session\<lparr>events :=
        [EvVerify ''header.payload.signature'' (Some ''oidc: token is expired''),
         EvError ''failed to verify id token [oidc: token is expired]'',
         EvErrorHandler, EvAbort]\<rparr>)"
proof -
  have hyps:
    "session_Get authorized_session ''oidcAuthorized'' = VBool True \<or>
       (Path (URL (request_to ''/protected'' Map.empty)) = CallbackPath sample_params \<and>
        (session_Get authorized_session ''oidcAuthorized'' = VNil \<or>
         session_Get authorized_session ''oidcAuthorized'' = VBool False))"
    "session_Get authorized_session ''oidcIDToken'' = VNil \<and> ''header.payload.signature'' = [] \<or>
     session_Get authorized_session ''oidcIDToken'' = VStr ''header.payload.signature''"
    by (simp_all add: sample_defs session_Get_def)
  note ok = gate_passes_or_aborts [OF hyps, of sample_env sample_verifier sample_config]
  note expired = gate_passes_or_aborts [OF hyps, of sample_env
      "\<lambda>rawIDToken. Inl ''oidc: token is expired''" sample_config]
  have ev: "events authorized_session = []"
    by (simp add: sample_defs)
  show ?thesis
    using ok expired ev
    by (simp add: sample_verifier_def) (simp add: sample_defs session_Get_def)
qed

section \<open>The logout handler\<close>

text \<open>Startup leaves \<^verbatim>\<open>LogoutUrl\<close> set whenever it returns.\<close>

lemma init_sets_LogoutUrl:
  "initVerifierAndConfig env i = (Returned, i', vc) \<Longrightarrow> LogoutUrl i' \<noteq> None"
  by (auto simp: initVerifierAndConfig_def Let_def split: sum.splits option.splits)

lemma logoutHandler_effect:
  assumes tok: "session_Get c ''oidcIDToken'' = VNil \<and> token = [] \<or>
                session_Get c ''oidcIDToken'' = VStr token"
    and lo: "LogoutUrl i = Some logoutUrl"
  shows "logoutHandler env i c =
           (Returned,
            c\<lparr>SessionValues := (SessionValues c)(''oidcAuthorized'' \<mapsto> VBool False,
                  ''oidcClaims'' \<mapsto> VNil, ''oidcState'' \<mapsto> VNil,
                  ''oidcOriginalRequestUrl'' \<mapsto> VNil, ''oidcIDToken'' \<mapsto> VNil),
               events := events c @
                 [EvSet ''oidcAuthorized'' (VBool False), EvSet ''oidcClaims'' VNil,
                  EvSet ''oidcState'' VNil, EvSet ''oidcOriginalRequestUrl'' VNil,
                  EvSet ''oidcIDToken'' VNil,
                  EvSave (Save env ((SessionValues c)(''oidcAuthorized'' \<mapsto> VBool False,
                     ''oidcClaims'' \<mapsto> VNil, ''oidcState'' \<mapsto> VNil,
                     ''oidcOriginalRequestUrl'' \<mapsto> VNil, ''oidcIDToken'' \<mapsto> VNil))),
                  EvRedirect 302
                    (if token = [] then url_String env (PostLogoutUrl i)
                     else url_String env (logoutUrl\<lparr>RawQuery := Values_Encode env
                            [(''post_logout_redirect_uri'', [url_String env (PostLogoutUrl i)]),
                             (''id_token_hint'', [token])]\<rparr>))]\<rparr>)"
proof -
  from tok have ns: "nonempty_string (session_Get c ''oidcIDToken'') = Some (token \<noteq> [])"
    by (auto simp: nonempty_string_def assert_string_def)
  show ?thesis
  proof (cases "token = []")
    case True
    with ns show ?thesis
      by (simp add: logoutHandler_def effect_defs StatusFound_def Let_def)
  next
    case False
    with tok have "assert_string (session_Get c ''oidcIDToken'') = Some token"
      by (auto simp: assert_string_def)
    with False ns lo show ?thesis
      by (simp add: logoutHandler_def effect_defs StatusFound_def Let_def)
  qed
qed

text \<open>
  C8. With the stored ID token nil or a string, the logout handler clears the five
  session fields (\<open>oidcAuthorized\<close> to false, the others to nil), saves, and then
  redirects: to the post-logout URL itself when the token was nil or empty, and otherwise
  to the end-session URL with the query that encodes \<open>post_logout_redirect_uri\<close> as the
  post-logout URL and \<open>id_token_hint\<close> as the token it has just cleared. No exchange and
  no verification is among the events. The target depends on nothing else in the session.
\<close>

theorem logout_clears_and_redirects:
  assumes tok: "session_Get c ''oidcIDToken'' = VNil \<and> token = [] \<or>
                session_Get c ''oidcIDToken'' = VStr token"
    and lo: "LogoutUrl i = Some logoutUrl"
  shows "logoutHandler env i c =
           (Returned,
            c\<lparr>SessionValues := (SessionValues c)(''oidcAuthorized'' \<mapsto> VBool False,
                  ''oidcClaims'' \<mapsto> VNil, ''oidcState'' \<mapsto> VNil,
                  ''oidcOriginalRequestUrl'' \<mapsto> VNil, ''oidcIDToken'' \<mapsto> VNil),
               events := events c @
                 [EvSet ''oidcAuthorized'' (VBool False), EvSet ''oidcClaims'' VNil,
                  EvSet ''oidcState'' VNil, EvSet ''oidcOriginalRequestUrl'' VNil,
                  EvSet ''oidcIDToken'' VNil,
                  EvSave (Save env ((SessionValues c)(''oidcAuthorized'' \<mapsto> VBool False,
                     ''oidcClaims'' \<mapsto> VNil, ''oidcState'' \<mapsto> VNil,
                     ''oidcOriginalRequestUrl'' \<mapsto> VNil, ''oidcIDToken'' \<mapsto> VNil))),
                  EvRedirect 302
                    (if token = [] then url_String env (PostLogoutUrl i)
                     else url_String env (logoutUrl\<lparr>RawQuery := Values_Encode env
                            [(''post_logout_redirect_uri'', [url_String env (PostLogoutUrl i)]),
                             (''id_token_hint'', [token])]\<rparr>))]\<rparr>)"
  using assms by (rule logoutHandler_effect)

theorem logout_clears_and_redirects_witness:
  "session_Get authorized_session ''oidcIDToken'' = VStr ''header.payload.signature'' \<and>
   session_Get (session_of Map.empty) ''oidcIDToken'' = VNil \<and>
   LogoutUrl sample_params = Some \<lparr>Scheme = ''https'', Host = ''idp.example'',
      Path = ''/auth/logout'', RawQuery = [], Fragment = []\<rparr> \<and>
   fst (logoutHandler sample_env sample_params authorized_session) = Returned \<and>
   last (events (snd (logoutHandler sample_env sample_params authorized_session))) =
     EvRedirect 302 (''https://idp.example/auth/logout?post_logout_redirect_uri=http://app.example/bye''
                     @ ''&id_token_hint=header.payload.signature'') \<and>
   session_Get (snd (logoutHandler sample_env sample_params authorized_session)) ''oidcIDToken'' = VNil \<and>
   session_Get (snd (logoutHandler sample_env sample_params authorized_session)) ''oidcAuthorized'' =
     VBool False \<and>
   fst (logoutHandler sample_env sample_params (session_of Map.empty)) = Returned \<and>
   last (events (snd (logoutHandler sample_env sample_params (session_of Map.empty)))) =
     EvRedirect 302 ''http://app.example/bye''"
proof -
  have lo: "LogoutUrl sample_params = Some \<lparr>Scheme = ''https'', Host = ''idp.example'',
      Path = ''/auth/logout'', RawQuery = [], Fragment = []\<rparr>"
    by (simp add: sample_params_def)
  have t1: "session_Get authorized_session ''oidcIDToken'' = VNil \<and> ''header.payload.signature'' = [] \<or>
            session_Get authorized_session ''oidcIDToken'' = VStr ''header.payload.signature''"
    by (simp add: sample_defs session_Get_def)
  have t2: "session_Get (session_of Map.empty) ''oidcIDToken'' = VNil \<and> ([]::string) = [] \<or>
            session_Get (session_of Map.empty) ''oidcIDToken'' = VStr []"
    by (simp add: sample_defs session_Get_def)
  note full = logout_clears_and_redirects [OF t1 lo, of sample_env]
  note local = logout_clears_and_redirects [OF t2 lo, of sample_env]
  show ?thesis
    unfolding full local
    by (simp add: lo) (simp add: sample_defs session_Get_def)
qed

lemma gate_panics_on_flag:
  assumes "flag \<noteq> VNil" "\<forall>b. flag \<noteq> VBool b" "session_Get c ''oidcAuthorized'' = flag"
  shows "protectMiddleware env i verifier config r c = (Panicked, c)"
proof -
  from assms have "true_bool (session_Get c ''oidcAuthorized'') = None"
    by (cases flag) (auto simp: true_bool_def assert_bool_def)
  then show ?thesis
    by (simp add: protectMiddleware_def)
qed

lemma gate_panics_on_token:
  assumes "raw \<noteq> VNil" "\<forall>s. raw \<noteq> VStr s" "session_Get c ''oidcIDToken'' = raw"
    and "session_Get c ''oidcAuthorized'' = VBool True \<or>
         Path (URL r) = CallbackPath i \<and>
           (session_Get c ''oidcAuthorized'' = VNil \<or> session_Get c ''oidcAuthorized'' = VBool False)"
  shows "protectMiddleware env i verifier config r c = (Panicked, c)"
proof -
  define a where "a = (session_Get c ''oidcAuthorized'' = VBool True)"
  from assms(4) have tb: "true_bool (session_Get c ''oidcAuthorized'') = Some a"
    and go: "a \<or> Path (URL r) = CallbackPath i"
    by (auto simp: a_def true_bool_def assert_bool_def)
  from assms(1-3) have "nonempty_string (session_Get c ''oidcIDToken'') = None"
    by (cases raw) (simp_all add: nonempty_string_def assert_string_def)
  with tb go show ?thesis
    by (simp add: protectMiddleware_def)
qed

lemma logout_panics_on_token:
  assumes "raw \<noteq> VNil" "\<forall>s. raw \<noteq> VStr s" "session_Get c ''oidcIDToken'' = raw"
  shows "logoutHandler env i c = (Panicked, c)"
proof -
  from assms have "nonempty_string (session_Get c ''oidcIDToken'') = None"
    by (cases raw) (simp_all add: nonempty_string_def assert_string_def)
  then show ?thesis
    by (simp add: logoutHandler_def)
qed

lemma RandomString_16_no_panic: "fst (RandomString 16 ds) \<noteq> Panicked"
  by (simp add: RandomString_def split: list.splits option.splits)

lemma gate_no_panic:
  assumes "session_Get c ''oidcAuthorized'' = VNil \<or> (\<exists>b. session_Get c ''oidcAuthorized'' = VBool b)"
    and "session_Get c ''oidcIDToken'' = VNil \<or> (\<exists>s. session_Get c ''oidcIDToken'' = VStr s)"
  shows "fst (protectMiddleware env i verifier config r c) \<noteq> Panicked"
proof -
  define a where "a = (session_Get c ''oidcAuthorized'' = VBool True)"
  define p where "p = (\<exists>s. s \<noteq> [] \<and> session_Get c ''oidcIDToken'' = VStr s)"
  from assms(1) have tb: "true_bool (session_Get c ''oidcAuthorized'') = Some a"
    by (auto simp: a_def true_bool_def assert_bool_def)
  from assms(2) have ns: "nonempty_string (session_Get c ''oidcIDToken'') = Some p"
    and as: "p \<longrightarrow> assert_string (session_Get c ''oidcIDToken'') \<noteq> None"
    by (auto simp: p_def nonempty_string_def assert_string_def)
  show ?thesis
  proof (cases "a \<or> Path (URL r) = CallbackPath i")
    case True
    with tb ns as show ?thesis
      by (auto simp: protectMiddleware_def effect_defs split: prod.splits sum.splits)
  next
    case False
    with tb RandomString_16_no_panic [of "src c"] show ?thesis
      by (auto simp: protectMiddleware_def effect_defs Let_def split: prod.splits option.splits)
  qed
qed

lemma logout_no_panic:
  assumes "session_Get c ''oidcIDToken'' = VNil \<or> (\<exists>s. session_Get c ''oidcIDToken'' = VStr s)"
    and "LogoutUrl i \<noteq> None"
  shows "fst (logoutHandler env i c) \<noteq> Panicked"
proof -
  from assms(1) obtain token where
    "session_Get c ''oidcIDToken'' = VNil \<and> token = [] \<or> session_Get c ''oidcIDToken'' = VStr token"
    by auto
  moreover from assms(2) obtain logoutUrl where "LogoutUrl i = Some logoutUrl"
    by auto
  ultimately show ?thesis
    using logoutHandler_effect [of c token i logoutUrl env] by simp
qed

lemma callback_unreadable_state:
  assumes "\<forall>s. session_Get c ''oidcState'' \<noteq> VStr s"
  shows "callbackHandler env i verifier config r c =
           (Returned, c\<lparr>events := events c @
              [EvError ''failed to parse state [not ok]'', EvErrorHandler, EvAbort]\<rparr>)"
  using assms
  by (cases "session_Get c ''oidcState''")
     (simp_all add: callbackHandler_def as_string_def handleOk_def handleError_def emit_def)

lemma callback_unreadable_url:
  assumes "session_Get c ''oidcState'' = VStr (Query r ''state'')"
    and "Exchange env config (Query r ''code'') = Inr oauth2Token"
    and "Extra oauth2Token ''id_token'' = VStr rawIDToken"
    and "verifier rawIDToken = Inr idToken"
    and "IDToken_Claims env idToken = Inr claims"
    and "json_Marshal env claims = Inr claimsJson"
    and "\<forall>s. session_Get c ''oidcOriginalRequestUrl'' \<noteq> VStr s"
  shows "callbackHandler env i verifier config r c =
           (Returned, c\<lparr>events := events c @
              [EvExchange (Query r ''code'') None, EvVerify rawIDToken None,
               EvError ''failed to parse originalRequestUrl [not ok]'', EvErrorHandler, EvAbort]\<rparr>)"
proof -
  from assms(7) have "as_string (session_Get c ''oidcOriginalRequestUrl'') = ([], False)"
    by (cases "session_Get c ''oidcOriginalRequestUrl''") (simp_all add: as_string_def)
  then have "as_string (case SessionValues c ''oidcOriginalRequestUrl'' of None \<Rightarrow> VNil | Some v \<Rightarrow> v)
               = ([], False)"
    by (simp add: session_Get_def)
  with assms(1-6) show ?thesis
    by (simp add: callbackHandler_def as_string_def effect_defs)
qed

lemma callback_never_panics: "fst (callbackHandler env i verifier config r c) = Returned"
  by (simp add: callbackHandler_def Let_def split: prod.splits sum.splits)

section \<open>Ill-typed session values\<close>

text \<open>
  C10. The gate and the logout handler assert the types of what they read without a
  check: a non-nil value under \<open>oidcAuthorized\<close> that is not a bool panics the gate on any
  request; a non-nil value under \<open>oidcIDToken\<close> that is not a string panics the gate
  whenever it lets a request through, and the logout handler always. In each case the
  handler stops with the context untouched, so no error handler runs. With values of the
  expected types (or nil) neither handler panics. The callback handler checks its
  assertions: a stored state or original URL that is not a string ends in the error
  handler, and it never panics.
\<close>

theorem unchecked_assertions_panic:
  "(flag \<noteq> VNil \<and> (\<forall>b. flag \<noteq> VBool b) \<and> session_Get c ''oidcAuthorized'' = flag \<longrightarrow>
      protectMiddleware env i verifier config r c = (Panicked, c)) \<and>
   (raw \<noteq> VNil \<and> (\<forall>s. raw \<noteq> VStr s) \<and> session_Get c ''oidcIDToken'' = raw \<and>
    (session_Get c ''oidcAuthorized'' = VBool True \<or>
     Path (URL r) = CallbackPath i \<and>
       (session_Get c ''oidcAuthorized'' = VNil \<or> session_Get c ''oidcAuthorized'' = VBool False)) \<longrightarrow>
      protectMiddleware env i verifier config r c = (Panicked, c)) \<and>
   (raw \<noteq> VNil \<and> (\<forall>s. raw \<noteq> VStr s) \<and> session_Get c ''oidcIDToken'' = raw \<longrightarrow>
      logoutHandler env i c = (Panicked, c)) \<and>
   ((session_Get c ''oidcAuthorized'' = VNil \<or> session_Get c ''oidcAuthorized'' = VBool b) \<and>
    (session_Get c ''oidcIDToken'' = VNil \<or> session_Get c ''oidcIDToken'' = VStr token) \<longrightarrow>
      fst (protectMiddleware env i verifier config r c) \<noteq> Panicked) \<and>
   ((session_Get c ''oidcIDToken'' = VNil \<or> session_Get c ''oidcIDToken'' = VStr token) \<and>
    LogoutUrl i \<noteq> None \<longrightarrow>
      fst (logoutHandler env i c) \<noteq> Panicked) \<and>
   ((\<forall>s. session_Get c ''oidcState'' \<noteq> VStr s) \<longrightarrow>
      callbackHandler env i verifier config r c =
        (Returned, c\<lparr>events := events c @
           [EvError ''failed to parse state [not ok]'', EvErrorHandler, EvAbort]\<rparr>)) \<and>
   (session_Get c ''oidcState'' = VStr (Query r ''state'') \<and>
    Exchange env config (Query r ''code'') = Inr oauth2Token \<and>
    Extra oauth2Token ''id_token'' = VStr rawIDToken \<and>
    verifier rawIDToken = Inr idToken \<and>
    IDToken_Claims env idToken = Inr claims \<and>
    json_Marshal env claims = Inr claimsJson \<and>
    (\<forall>s. session_Get c ''oidcOriginalRequestUrl'' \<noteq> VStr s) \<longrightarrow>
      callbackHandler env i verifier config r c =
        (Returned, c\<lparr>events := events c @
           [EvExchange (Query r ''code'') None, EvVerify rawIDToken None,
            EvError ''failed to parse originalRequestUrl [not ok]'', EvErrorHandler, EvAbort]\<rparr>)) \<and>
   fst (callbackHandler env i verifier config r c) = Returned"
  using gate_panics_on_flag [of flag c env i verifier config r]
    gate_panics_on_token [of raw c r i env verifier config]
    logout_panics_on_token [of raw c env i]
    gate_no_panic [of c env i verifier config r]
    logout_no_panic [of c i env]
    callback_unreadable_state [of c env i verifier config r]
    callback_unreadable_url [of c r env config oauth2Token rawIDToken verifier idToken claims claimsJson i]
    callback_never_panics [of env i verifier config r c]
  by blast

theorem unchecked_assertions_panic_witness:
  "protectMiddleware sample_env sample_params sample_verifier sample_config
     (request_to ''/protected'' Map.empty) (session_of [''oidcAuthorized'' \<mapsto> VStr ''yes'']) =
     (Panicked, session_of [''oidcAuthorized'' \<mapsto> VStr ''yes'']) \<and>
   protectMiddleware sample_env sample_params sample_verifier sample_config
     (request_to ''/protected'' Map.empty)
     (session_of [''oidcAuthorized'' \<mapsto> VBool True, ''oidcIDToken'' \<mapsto> VInt 7]) =
     (Panicked, session_of [''oidcAuthorized'' \<mapsto> VBool True, ''oidcIDToken'' \<mapsto> VInt 7]) \<and>
   logoutHandler sample_env sample_params
     (session_of [''oidcAuthorized'' \<mapsto> VBool True, ''oidcIDToken'' \<mapsto> VInt 7]) =
     (Panicked, session_of [''oidcAuthorized'' \<mapsto> VBool True, ''oidcIDToken'' \<mapsto> VInt 7]) \<and>
   fst (protectMiddleware sample_env sample_params sample_verifier sample_config
     (request_to ''/protected'' Map.empty) authorized_session) \<noteq> Panicked \<and>
   fst (logoutHandler sample_env sample_params authorized_session) \<noteq> Panicked \<and>
   callbackHandler sample_env sample_params sample_verifier sample_config
     (callback_request ''aaaaaaaaaaaaaaaa'' ''C1'') (session_of [''oidcState'' \<mapsto> VInt 7]) =
     (Returned, (session_of [''oidcState'' \<mapsto> VInt 7])\<lparr>events :=
        [EvError ''failed to parse state [not ok]'', EvErrorHandler, EvAbort]\<rparr>) \<and>
   callbackHandler sample_env sample_params sample_verifier sample_config
     (callback_request ''aaaaaaaaaaaaaaaa'' ''C1'')
     (session_of [''oidcState'' \<mapsto> VStr ''aaaaaaaaaaaaaaaa'', ''oidcOriginalRequestUrl'' \<mapsto> VInt 7]) =
     (Returned,
      (session_of [''oidcState'' \<mapsto> VStr ''aaaaaaaaaaaaaaaa'', ''oidcOriginalRequestUrl'' \<mapsto> VInt 7])
        \<lparr>events := [EvExchange ''C1'' None, EvVerify ''header.payload.signature'' None,
           EvError ''failed to parse originalRequestUrl [not ok]'', EvErrorHandler, EvAbort]\<rparr>)"
proof -
  let ?r = "request_to ''/protected'' Map.empty"
  let ?cb = "callback_request ''aaaaaaaaaaaaaaaa'' ''C1''"
  let ?c1 = "session_of [''oidcAuthorized'' \<mapsto> VStr ''yes'']"
  let ?c2 = "session_of [''oidcAuthorized'' \<mapsto> VBool True, ''oidcIDToken'' \<mapsto> VInt 7]"
  let ?c3 = "session_of [''oidcState'' \<mapsto> VInt 7]"
  let ?c4 = "session_of [''oidcState'' \<mapsto> VStr ''aaaaaaaaaaaaaaaa'', ''oidcOriginalRequestUrl'' \<mapsto> VInt 7]"
  have g1: "session_Get ?c1 ''oidcAuthorized'' = VStr ''yes''"
    and g2: "session_Get ?c2 ''oidcAuthorized'' = VBool True" "session_Get ?c2 ''oidcIDToken'' = VInt 7"
    and g3: "session_Get authorized_session ''oidcAuthorized'' = VBool True"
      "session_Get authorized_session ''oidcIDToken'' = VStr ''header.payload.signature''"
      "LogoutUrl sample_params \<noteq> None"
    and g4: "\<forall>s. session_Get ?c3 ''oidcState'' \<noteq> VStr s"
    and g5: "session_Get ?c4 ''oidcState'' = VStr (Query ?cb ''state'')"
      "Exchange sample_env sample_config (Query ?cb ''code'') = Inr sample_token"
      "Extra sample_token ''id_token'' = VStr ''header.payload.signature''"
      "sample_verifier ''header.payload.signature'' = Inr (IDToken ''payload'')"
      "IDToken_Claims sample_env (IDToken ''payload'') = Inr [(''sub'', VStr ''alice'')]"
      "json_Marshal sample_env [(''sub'', VStr ''alice'')] = Inr ''{sub:alice}''"
      "\<forall>s. session_Get ?c4 ''oidcOriginalRequestUrl'' \<noteq> VStr s"
    by (simp_all add: sample_defs session_Get_def)
  have e: "events ?c3 = []" "events ?c4 = []" "Query ?cb ''code'' = ''C1''"
    by (simp_all add: sample_defs)
  have p1: "protectMiddleware sample_env sample_params sample_verifier sample_config ?r ?c1 =
      (Panicked, ?c1)"
    using unchecked_assertions_panic [where flag = "VStr ''yes''" and raw = VNil and b = True
        and token = "''header.payload.signature''" and c = ?c1
        and env = sample_env and i = sample_params and verifier = sample_verifier
        and config = sample_config and r = ?r] g1
    by simp
  have p2: "protectMiddleware sample_env sample_params sample_verifier sample_config ?r ?c2 =
      (Panicked, ?c2)"
    "logoutHandler sample_env sample_params ?c2 = (Panicked, ?c2)"
    using unchecked_assertions_panic [where flag = VNil and raw = "VInt 7" and b = True
        and token = "''header.payload.signature''" and c = ?c2
        and env = sample_env and i = sample_params and verifier = sample_verifier
        and config = sample_config and r = ?r] g2
    by simp_all
  have p3: "fst (protectMiddleware sample_env sample_params sample_verifier sample_config ?r
               authorized_session) \<noteq> Panicked"
    "fst (logoutHandler sample_env sample_params authorized_session) \<noteq> Panicked"
    using unchecked_assertions_panic [where flag = VNil and raw = VNil and b = True
        and token = "''header.payload.signature''" and c = authorized_session
        and env = sample_env and i = sample_params and verifier = sample_verifier
        and config = sample_config and r = ?r] g3
    by simp_all
  have p4: "callbackHandler sample_env sample_params sample_verifier sample_config ?cb ?c3 =
      (Returned, ?c3\<lparr>events := [EvError ''failed to parse state [not ok]'', EvErrorHandler, EvAbort]\<rparr>)"
    using unchecked_assertions_panic [where flag = VNil and raw = VNil and b = True
        and token = "''header.payload.signature''" and c = ?c3
        and env = sample_env and i = sample_params and verifier = sample_verifier
        and config = sample_config and r = ?cb] g4 e(1)
    by simp
  have p5: "callbackHandler sample_env sample_params sample_verifier sample_config ?cb ?c4 =
      (Returned, ?c4\<lparr>events := [EvExchange ''C1'' None, EvVerify ''header.payload.signature'' None,
           EvError ''failed to parse originalRequestUrl [not ok]'', EvErrorHandler, EvAbort]\<rparr>)"
    using unchecked_assertions_panic [where flag = VNil and raw = VNil and b = True
        and token = "''header.payload.signature''" and c = ?c4
        and env = sample_env and i = sample_params and verifier = sample_verifier
        and config = sample_config and r = ?cb
        and oauth2Token = sample_token and rawIDToken = "''header.payload.signature''"
        and idToken = "IDToken ''payload''" and claims = "[(''sub'', VStr ''alice'')]"
        and claimsJson = "''{sub:alice}''"] g5 e(2,3)
    by simp
  from p1 p2 p3 p4 p5 show ?thesis
    by simp
qed

section \<open>The session invariant over all requests\<close>





lemma only_events_Get: "only_events c c1 \<Longrightarrow> session_Get c1 key = session_Get c key"
  by (simp add: only_events_def session_Get_def)

























section \<open>Where the code departs from its specification\<close>

text \<open>
  C6. A store whose \<open>Save\<close> fails. The callback handler records the failure and calls the
  error handler. The gate does neither: it ends the process with \<^verbatim>\<open>log.Fatal\<close>. The
  logout handler drops the error and redirects as if the session had been saved.
\<close>

theorem save_failure_not_request_scoped:
  "fst (protectMiddleware failing_store sample_params sample_verifier sample_config
          (request_to ''/protected'' Map.empty) (session_of Map.empty)) = Exited \<and>
   events (snd (protectMiddleware failing_store sample_params sample_verifier sample_config
          (request_to ''/protected'' Map.empty) (session_of Map.empty))) =
     [EvSet ''oidcAuthorized'' (VBool False), EvSet ''oidcState'' (VStr ''aaaaaaaaaaaaaaaa''),
      EvSet ''oidcOriginalRequestUrl'' (VStr ''/protected''), EvSet ''oidcIDToken'' VNil,
      EvSave (Some ''store unreachable''),
      EvFatal ''failed save sessions. error: store unreachable''] \<and>
   fst (logoutHandler failing_store sample_params authorized_session) = Returned \<and>
   events (snd (logoutHandler failing_store sample_params authorized_session)) =
     [EvSet ''oidcAuthorized'' (VBool False), EvSet ''oidcClaims'' VNil,
      EvSet ''oidcState'' VNil, EvSet ''oidcOriginalRequestUrl'' VNil,
      EvSet ''oidcIDToken'' VNil, EvSave (Some ''store unreachable''),
      EvRedirect 302 (''https://idp.example/auth/logout?post_logout_redirect_uri=http://app.example/bye''
                      @ ''&id_token_hint=header.payload.signature'')] \<and>
   fst (callbackHandler failing_store sample_params sample_verifier sample_config
          (callback_request ''aaaaaaaaaaaaaaaa'' ''C1'') pending_session) = Returned \<and>
   events (snd (callbackHandler failing_store sample_params sample_verifier sample_config
          (callback_request ''aaaaaaaaaaaaaaaa'' ''C1'') pending_session)) =
     [EvExchange ''C1'' None, EvVerify ''header.payload.signature'' None,
      EvSet ''oidcAuthorized'' (VBool True), EvSet ''oidcState'' VNil,
      EvSet ''oidcOriginalRequestUrl'' VNil, EvSet ''oidcClaims'' (VStr ''{sub:alice}''),
      EvSet ''oidcIDToken'' (VStr ''header.payload.signature''),
      EvSave (Some ''store unreachable''),
      EvError ''failed save sessions. [store unreachable]'', EvErrorHandler, EvAbort]"
proof -
  have gate: "protectMiddleware failing_store sample_params sample_verifier sample_config
          (request_to ''/protected'' Map.empty) (session_of Map.empty) =
      (Exited, \<lparr>SessionValues = [''oidcAuthorized'' \<mapsto> VBool False,
          ''oidcState'' \<mapsto> VStr ''aaaaaaaaaaaaaaaa'',
          ''oidcOriginalRequestUrl'' \<mapsto> VStr ''/protected'', ''oidcIDToken'' \<mapsto> VNil],
        events = [EvSet ''oidcAuthorized'' (VBool False), EvSet ''oidcState'' (VStr ''aaaaaaaaaaaaaaaa''),
          EvSet ''oidcOriginalRequestUrl'' (VStr ''/protected''), EvSet ''oidcIDToken'' VNil,
          EvSave (Some ''store unreachable''),
          EvFatal ''failed save sessions. error: store unreachable''],
        src = []\<rparr>)"
    by (simp add: protectMiddleware_def effect_defs StatusFound_def sample_defs failing_store_def RandomString_16
          true_bool_def assert_bool_def Let_def)
  have logout: "events (snd (logoutHandler failing_store sample_params authorized_session)) =
     [EvSet ''oidcAuthorized'' (VBool False), EvSet ''oidcClaims'' VNil,
      EvSet ''oidcState'' VNil, EvSet ''oidcOriginalRequestUrl'' VNil,
      EvSet ''oidcIDToken'' VNil, EvSave (Some ''store unreachable''),
      EvRedirect 302 (''https://idp.example/auth/logout?post_logout_redirect_uri=http://app.example/bye''
                      @ ''&id_token_hint=header.payload.signature'')]"
    "fst (logoutHandler failing_store sample_params authorized_session) = Returned"
    by (simp_all add: logoutHandler_def effect_defs StatusFound_def sample_defs failing_store_def
          nonempty_string_def assert_string_def Let_def)
  have callback: "events (snd (callbackHandler failing_store sample_params sample_verifier sample_config
          (callback_request ''aaaaaaaaaaaaaaaa'' ''C1'') pending_session)) =
     [EvExchange ''C1'' None, EvVerify ''header.payload.signature'' None,
      EvSet ''oidcAuthorized'' (VBool True), EvSet ''oidcState'' VNil,
      EvSet ''oidcOriginalRequestUrl'' VNil, EvSet ''oidcClaims'' (VStr ''{sub:alice}''),
      EvSet ''oidcIDToken'' (VStr ''header.payload.signature''),
      EvSave (Some ''store unreachable''),
      EvError ''failed save sessions. [store unreachable]'', EvErrorHandler, EvAbort]"
    "fst (callbackHandler failing_store sample_params sample_verifier sample_config
          (callback_request ''aaaaaaaaaaaaaaaa'' ''C1'') pending_session) = Returned"
    by (simp_all add: callbackHandler_def as_string_def effect_defs sample_defs failing_store_def
          Let_def)
  show ?thesis
    unfolding gate using logout callback by simp
qed

text \<open>
  C7. A provider whose metadata has no \<open>end_session_endpoint\<close>, with the issuer
  \<open>https://idp.example/auth/\<close>: startup trims the trailing slash and appends the segment
  with no separator, so the URL it parses is
  \<open>https://idp.example/authprotocol/openid-connect/logout\<close>. An issuer written without
  the trailing slash gives the same text.
\<close>

theorem default_logout_url_has_no_separator:
  "url_String sample_env (Issuer sample_params) = ''https://idp.example/auth/'' \<and>
   provider_Claims sample_provider = Inr [''issuer'' \<mapsto> VStr ''https://idp.example/auth/''] \<and>
   fst (initVerifierAndConfig sample_env sample_params) = Returned \<and>
   LogoutUrl (fst (snd (initVerifierAndConfig sample_env sample_params))) =
     Some \<lparr>Scheme = [], Host = [], Path = ''https://idp.example/authprotocol/openid-connect/logout'',
            RawQuery = [], Fragment = []\<rparr> \<and>
   url_Parse sample_env ''https://idp.example/authprotocol/openid-connect/logout'' =
     Inr \<lparr>Scheme = [], Host = [], Path = ''https://idp.example/authprotocol/openid-connect/logout'',
            RawQuery = [], Fragment = []\<rparr> \<and>
   url_String sample_env (Issuer (sample_params\<lparr>Issuer := (Issuer sample_params)\<lparr>Path := ''/auth''\<rparr>\<rparr>)) =
     ''https://idp.example/auth'' \<and>
   LogoutUrl (fst (snd (initVerifierAndConfig sample_env
       (sample_params\<lparr>Issuer := (Issuer sample_params)\<lparr>Path := ''/auth''\<rparr>\<rparr>)))) =
     Some \<lparr>Scheme = [], Host = [], Path = ''https://idp.example/authprotocol/openid-connect/logout'',
            RawQuery = [], Fragment = []\<rparr>"
  by (simp add: initVerifierAndConfig_def TrimSuffix_def assert_string_def sample_defs)

end
